theory Spec2Isabelle
  imports Complex_Main
begin

section \<open>JavaScript numbers\<close>

text \<open>
  Every \<open>number\<close> of \<open>src/monitoring/monitor.ts\<close> that is the result of an addition,
  multiplication or division is a \<open>jsnum\<close>: a real number, or one of the three special
  values of IEEE 754 that the code can produce by dividing by a counter that is still zero.
  The operations below follow ECMAScript on the special values. Two things are idealised:
  finite arithmetic is exact (no rounding, no overflow to Infinity), and zero has no sign.
  The sign of zero can be observed only by dividing by it, and every divisor of the modelled
  code is a counter that starts at the literal \<open>0\<close> and is changed by \<open>++\<close> only, a
  difference of two clock readings, a positive literal, or a property of an inherited object
  that is NaN whenever it is read, so a zero divisor is always \<open>+0\<close>.
\<close>

datatype jsnum = Fin real | PInf | NInf | NaN

fun js_neg :: "jsnum \<Rightarrow> jsnum" where
  "js_neg (Fin a) = Fin (- a)"
| "js_neg PInf = NInf"
| "js_neg NInf = PInf"
| "js_neg NaN = NaN"

fun js_add :: "jsnum \<Rightarrow> jsnum \<Rightarrow> jsnum" where
  "js_add NaN y = NaN"
| "js_add (Fin a) (Fin b) = Fin (a + b)"
| "js_add (Fin a) y = y"
| "js_add PInf (Fin b) = PInf"
| "js_add PInf PInf = PInf"
| "js_add PInf NInf = NaN"
| "js_add PInf NaN = NaN"
| "js_add NInf (Fin b) = NInf"
| "js_add NInf NInf = NInf"
| "js_add NInf PInf = NaN"
| "js_add NInf NaN = NaN"

definition js_sub :: "jsnum \<Rightarrow> jsnum \<Rightarrow> jsnum" where
  "js_sub x y = js_add x (js_neg y)"

fun js_mul :: "jsnum \<Rightarrow> jsnum \<Rightarrow> jsnum" where
  "js_mul NaN y = NaN"
| "js_mul (Fin a) (Fin b) = Fin (a * b)"
| "js_mul (Fin a) PInf = (if a = 0 then NaN else if 0 < a then PInf else NInf)"
| "js_mul (Fin a) NInf = (if a = 0 then NaN else if 0 < a then NInf else PInf)"
| "js_mul (Fin a) NaN = NaN"
| "js_mul PInf (Fin b) = (if b = 0 then NaN else if 0 < b then PInf else NInf)"
| "js_mul PInf PInf = PInf"
| "js_mul PInf NInf = NInf"
| "js_mul PInf NaN = NaN"
| "js_mul NInf (Fin b) = (if b = 0 then NaN else if 0 < b then NInf else PInf)"
| "js_mul NInf PInf = NInf"
| "js_mul NInf NInf = PInf"
| "js_mul NInf NaN = NaN"

text \<open>Division never raises in JavaScript: \<open>x / 0\<close> is an infinity, \<open>0 / 0\<close> is NaN.\<close>

fun js_div :: "jsnum \<Rightarrow> jsnum \<Rightarrow> jsnum" where
  "js_div NaN y = NaN"
| "js_div (Fin a) (Fin b) =
     (if b = 0 then (if a = 0 then NaN else if 0 < a then PInf else NInf) else Fin (a / b))"
| "js_div (Fin a) PInf = Fin 0"
| "js_div (Fin a) NInf = Fin 0"
| "js_div (Fin a) NaN = NaN"
| "js_div PInf (Fin b) = (if 0 \<le> b then PInf else NInf)"
| "js_div PInf y = NaN"
| "js_div NInf (Fin b) = (if 0 \<le> b then NInf else PInf)"
| "js_div NInf y = NaN"

text \<open>The comparison \<open>x > y\<close>; it is false as soon as one side is NaN.\<close>

fun js_gt :: "jsnum \<Rightarrow> jsnum \<Rightarrow> bool" where
  "js_gt NaN y = False"
| "js_gt (Fin a) (Fin b) = (b < a)"
| "js_gt (Fin a) NInf = True"
| "js_gt (Fin a) y = False"
| "js_gt PInf (Fin b) = True"
| "js_gt PInf NInf = True"
| "js_gt PInf y = False"
| "js_gt NInf y = False"

text \<open>Truthiness of a number in a condition: \<open>0\<close> and NaN are falsy.\<close>

fun js_truthy :: "jsnum \<Rightarrow> bool" where
  "js_truthy (Fin a) = (a \<noteq> 0)"
| "js_truthy NaN = False"
| "js_truthy PInf = True"
| "js_truthy NInf = True"

text \<open>
  A counter (a field initialised to \<open>0\<close> and changed by \<open>++\<close> only) is a \<open>nat\<close>;
  \<open>num\<close> reads it as a number where the code computes with it.
\<close>

definition num :: "nat \<Rightarrow> jsnum" where
  "num n = Fin (real n)"

section \<open>Data model (\<open>monitoring/types.ts\<close>, \<open>config/tokens.ts\<close>)\<close>

text \<open>A \<open>Date\<close> is its time value in milliseconds; \<open>new Date()\<close> reads the clock.\<close>

type_synonym Date = real

record TokenConfig =
  mintAddress :: string
  symbol :: string
  name :: string
  decimals :: nat
  enabled :: bool
  alertThreshold :: "nat option"

definition SUPPORTED_TOKENS :: "TokenConfig list" where
  "SUPPORTED_TOKENS =
    [\<lparr>mintAddress = ''EPjFWdd5AufqSSqeM2qN1xzybapC8G4wEGGkZwyTDt1v'', symbol = ''USDC'',
      name = ''USD Coin'', decimals = 6, enabled = True, alertThreshold = Some 10000\<rparr>,
     \<lparr>mintAddress = ''Es9vMFrzaCERmJfrF4H2FYD4KCoNkY11McCe8BenwNYB'', symbol = ''USDT'',
      name = ''Tether USD'', decimals = 6, enabled = True, alertThreshold = Some 10000\<rparr>,
     \<lparr>mintAddress = ''So11111111111111111111111111111111111111112'', symbol = ''SOL'',
      name = ''Solana'', decimals = 9, enabled = True, alertThreshold = Some 100\<rparr>,
     \<lparr>mintAddress = ''DezXAZ8z7PnrnRJjz3wXBoRgixCa6xjnB7YaB1pPB263'', symbol = ''BONK'',
      name = ''Bonk'', decimals = 5, enabled = True, alertThreshold = Some 1000000\<rparr>,
     \<lparr>mintAddress = ''JUPyiwrYJFskUPiHa7hkeR8VUtAeFoSYbKedZNsDvCN'', symbol = ''JUP'',
      name = ''Jupiter'', decimals = 6, enabled = True, alertThreshold = Some 10000\<rparr>]"

definition configuredSymbols :: "string list" where
  "configuredSymbols = map TokenConfig.symbol SUPPORTED_TOKENS"

record TokenMetrics =
  symbol :: string
  accountUpdates :: nat
  transactions :: nat
  averageTransactionSize :: jsnum
  largestTransaction :: jsnum
  lastActivity :: Date

record MemoryUsage =
  rss :: jsnum
  heapTotal :: jsnum
  heapUsed :: jsnum
  external :: jsnum
  arrayBuffers :: jsnum

text \<open>
  A \<open>TokenMetrics\<close> value of the source is a JavaScript object: the record
  \<open>tokenMetrics\<close> holds a reference to it, and \<open>recordTokenActivity\<close> writes its fields
  in place. The objects live in a store \<open>ref \<rightharpoonup> TokenMetrics\<close>, and \<open>tokenMetrics\<close>
  maps a symbol to the reference of its object. The key set of \<open>tokenMetrics\<close> is written
  only while \<open>initializeMetrics\<close> builds it.
\<close>

type_synonym ref = nat

record PerformanceMetrics =
  messagesPerSecond :: jsnum
  totalMessagesProcessed :: nat
  averageProcessingTime :: jsnum
  databaseLatency :: jsnum
  databaseOperationsPerSecond :: nat
  failedDatabaseOperations :: nat
  memoryUsage :: MemoryUsage
  cpuUsage :: jsnum
  connectionUptime :: jsnum
  lastMessageTime :: Date
  streamErrors :: nat
  reconnectionCount :: nat
  alertsSent :: nat
  alertsFailedToSend :: nat
  tokenMetrics :: "string \<rightharpoonup> ref"

datatype Health = Healthy | Warning | Critical

record Services =
  database :: Health
  grpcStream :: Health
  alertSystem :: Health
  memory :: Health

text \<open>
  An issue string of the source is a fixed text around one interpolated number; the model
  keeps which text it is and the number, not the formatting (\<open>toFixed\<close>, \<open>Math.round\<close>).
\<close>

datatype Issue =
    HighDatabaseLatency jsnum
  | HighDatabaseErrorRate jsnum
  | StreamSilent jsnum
  | MultipleStreamErrors nat
  | HighMemoryUsage jsnum
  | HighAlertFailureRate jsnum
  | SomeAlertFailures jsnum

record HealthStatus =
  overall :: Health
  services :: Services
  issues :: "Issue list"
  uptime :: jsnum

record ProcessingTimer =
  start :: real
  operation :: string

definition MAX_DATABASE_LATENCY :: jsnum where
  "MAX_DATABASE_LATENCY = Fin 500"

definition MAX_MEMORY_USAGE :: jsnum where
  "MAX_MEMORY_USAGE = Fin (512 * 1024 * 1024)"

definition MAX_STREAM_SILENCE :: jsnum where
  "MAX_STREAM_SILENCE = Fin 30000"

definition MAX_ERROR_RATE :: jsnum where
  "MAX_ERROR_RATE = Fin (5 / 100)"

section \<open>The monitor (\<open>monitoring/monitor.ts\<close>)\<close>

text \<open>
  What a call reads from outside the program: the wall clock (\<open>Date.now()\<close>,
  \<open>new Date()\<close>), the monotonic clock (\<open>performance.now()\<close>), and the process figures.
  One call takes one reading of each.
\<close>

record Env =
  dateNow :: real
  perfNow :: real
  procMemoryUsage :: MemoryUsage
  procCpuUser :: jsnum
  procCpuSystem :: jsnum

subsection \<open>The objects that \<open>tokenMetrics\<close> inherits from\<close>

text \<open>
  \<open>tokenMetrics\<close> is created as \<open>{}\<close>, a plain object, so \<open>tokenMetrics[symbol]\<close>
  looks for an own property first and then along the prototype chain, that is, in
  \<open>Object.prototype\<close>. A symbol that is no own key can therefore read as an object of the
  language, and the statements of \<open>recordTokenActivity\<close> that follow the guard then
  write their properties on that object. These objects are kept in a store of their own.

  A value found there is \<open>undefined\<close>, a number, or a reference to an object of the
  store. An object has its own properties, its prototype, and, when it is a \<open>Date\<close>, its
  time value.
\<close>

datatype jsval = Undefined | Num jsnum | Ref ref

record jsobject =
  props :: "string \<rightharpoonup> jsval"
  proto :: "ref option"
  dateValue :: "Date option"

text \<open>
  The objects present before the program runs: \<open>Object.prototype\<close>,
  \<open>Function.prototype\<close>, \<open>Date.prototype\<close>, the constructor \<open>Object\<close>, and the ten
  methods of \<open>Object.prototype\<close>. \<open>Object.prototype\<close> is listed with all its
  properties, since a symbol is looked up among them; the accessor \<open>__proto__\<close> gives the
  prototype of the object it is read on, which for \<open>tokenMetrics\<close> is
  \<open>Object.prototype\<close>. Of the other objects the own properties are left out: they are
  read under the five names \<open>lastActivity\<close>, \<open>accountUpdates\<close>, \<open>transactions\<close>,
  \<open>averageTransactionSize\<close> and \<open>largestTransaction\<close> only, and none of them has a
  property of such a name.
\<close>

definition objectPrototype :: ref where
  "objectPrototype = 0"

definition functionPrototype :: ref where
  "functionPrototype = 1"

definition datePrototype :: ref where
  "datePrototype = 2"

definition objectConstructor :: ref where
  "objectConstructor = 3"

definition objectPrototypeProps :: "string \<rightharpoonup> jsval" where
  "objectPrototypeProps =
     [''constructor'' \<mapsto> Ref objectConstructor,
      ''__proto__'' \<mapsto> Ref objectPrototype,
      ''__defineGetter__'' \<mapsto> Ref 4,
      ''__defineSetter__'' \<mapsto> Ref 5,
      ''hasOwnProperty'' \<mapsto> Ref 6,
      ''__lookupGetter__'' \<mapsto> Ref 7,
      ''__lookupSetter__'' \<mapsto> Ref 8,
      ''isPrototypeOf'' \<mapsto> Ref 9,
      ''propertyIsEnumerable'' \<mapsto> Ref 10,
      ''toString'' \<mapsto> Ref 11,
      ''valueOf'' \<mapsto> Ref 12,
      ''toLocaleString'' \<mapsto> Ref 13]"

definition functionObject :: jsobject where
  "functionObject = \<lparr>props = Map.empty, proto = Some functionPrototype, dateValue = None\<rparr>"

definition initialObjects :: "jsobject list" where
  "initialObjects =
     [\<lparr>props = objectPrototypeProps, proto = None, dateValue = None\<rparr>,
      \<lparr>props = Map.empty, proto = Some objectPrototype, dateValue = None\<rparr>,
      \<lparr>props = Map.empty, proto = Some objectPrototype, dateValue = None\<rparr>,
      functionObject]
     @ replicate 10 functionObject"

text \<open>
  Reading a property: the object's own one, or else the one of its prototype, and so on. A
  chain of prototypes has no cycle, so it is no longer than the store, which bounds the
  search.
\<close>

fun getProp :: "nat \<Rightarrow> jsobject list \<Rightarrow> ref \<Rightarrow> string \<Rightarrow> jsval" where
  "getProp 0 os r k = Undefined"
| "getProp (Suc fuel) os r k =
     (if r < length os
      then (case props (os ! r) k of
              Some v \<Rightarrow> v
            | None \<Rightarrow> (case proto (os ! r) of
                         None \<Rightarrow> Undefined
                       | Some p \<Rightarrow> getProp fuel os p k))
      else Undefined)"

definition getProperty :: "jsobject list \<Rightarrow> ref \<Rightarrow> string \<Rightarrow> jsval" where
  "getProperty os r k = getProp (length os) os r k"

text \<open>
  Writing a property under one of the five names makes it an own property of the object
  written on: no object has an accessor or a read-only property of such a name.
\<close>

definition setProperty :: "jsobject list \<Rightarrow> ref \<Rightarrow> string \<Rightarrow> jsval \<Rightarrow> jsobject list" where
  "setProperty os r k v =
     (if r < length os then os[r := (os ! r)\<lparr>props := (props (os ! r))(k \<mapsto> v)\<rparr>] else os)"

text \<open>\<open>new Date()\<close> puts a new object at the end of the store.\<close>

definition newDate :: "jsobject list \<Rightarrow> Date \<Rightarrow> jsobject list \<times> ref" where
  "newDate os t =
     (os @ [\<lparr>props = Map.empty, proto = Some datePrototype, dateValue = Some t\<rparr>], length os)"

text \<open>
  The number an arithmetic operator or a comparison takes from a value. Under the four
  numeric names only numbers are ever written, so the case of a reference does not arise
  there; for an object without a primitive value it is NaN.
\<close>

fun toNumber :: "jsval \<Rightarrow> jsnum" where
  "toNumber Undefined = NaN"
| "toNumber (Num n) = n"
| "toNumber (Ref r) = NaN"

subsection \<open>The state\<close>

text \<open>
  The state of a \<open>PerformanceMonitor\<close>: its fields, the store \<open>heap\<close> of the
  \<open>TokenMetrics\<close> objects it refers to, and the store \<open>objects\<close> of the objects that
  \<open>tokenMetrics\<close> inherits from. The field \<open>intervalId\<close> and the periodic report of
  \<open>setInterval\<close> are not modelled: the report only calls \<open>getMetrics\<close> and
  \<open>getHealthStatus\<close>, which are.
\<close>

record PerformanceMonitor =
  metrics :: PerformanceMetrics
  startTime :: real
  processingTimers :: "string \<rightharpoonup> ProcessingTimer"
  heap :: "ref \<rightharpoonup> TokenMetrics"
  objects :: "jsobject list"

fun seedTokens ::
  "Date \<Rightarrow> TokenConfig list \<Rightarrow> ref \<Rightarrow> (string \<rightharpoonup> ref) \<times> (ref \<rightharpoonup> TokenMetrics)
    \<Rightarrow> (string \<rightharpoonup> ref) \<times> (ref \<rightharpoonup> TokenMetrics)" where
  "seedTokens now [] r acc = acc"
| "seedTokens now (token # rest) r (tm, h) =
     seedTokens now rest (r + 1)
       (tm(TokenConfig.symbol token \<mapsto> r),
        h(r \<mapsto> \<lparr>symbol = TokenConfig.symbol token, accountUpdates = 0, transactions = 0,
                averageTransactionSize = Fin 0, largestTransaction = Fin 0,
                lastActivity = now\<rparr>))"

definition initializeMetrics :: "Env \<Rightarrow> PerformanceMetrics \<times> (ref \<rightharpoonup> TokenMetrics)" where
  "initializeMetrics env =
     (let (tm, h) = seedTokens (dateNow env) SUPPORTED_TOKENS 0 (Map.empty, Map.empty)
      in (\<lparr>messagesPerSecond = Fin 0, totalMessagesProcessed = 0,
            averageProcessingTime = Fin 0, databaseLatency = Fin 0,
            databaseOperationsPerSecond = 0, failedDatabaseOperations = 0,
            memoryUsage = procMemoryUsage env, cpuUsage = Fin 0,
            connectionUptime = Fin 0, lastMessageTime = dateNow env,
            streamErrors = 0, reconnectionCount = 0, alertsSent = 0,
            alertsFailedToSend = 0, tokenMetrics = tm\<rparr>, h))"

definition newPerformanceMonitor :: "Env \<Rightarrow> PerformanceMonitor" where
  "newPerformanceMonitor env =
     (let (m, h) = initializeMetrics env
      in \<lparr>metrics = m, startTime = dateNow env, processingTimers = Map.empty, heap = h,
          objects = initialObjects\<rparr>)"

definition startTimer :: "Env \<Rightarrow> string \<Rightarrow> string \<Rightarrow> PerformanceMonitor \<Rightarrow> PerformanceMonitor" where
  "startTimer env operationId opn st =
     st\<lparr>processingTimers :=
          (processingTimers st)(operationId \<mapsto> \<lparr>start = perfNow env, operation = opn\<rparr>)\<rparr>"

definition updateAverageProcessingTime :: "jsnum \<Rightarrow> PerformanceMetrics \<Rightarrow> PerformanceMetrics" where
  "updateAverageProcessingTime duration m =
     (let total = js_add (js_mul (averageProcessingTime m)
                                 (js_sub (num (totalMessagesProcessed m)) (Fin 1))) duration
      in m\<lparr>averageProcessingTime := js_div total (num (totalMessagesProcessed m))\<rparr>)"

definition updateMessagesPerSecond :: "Env \<Rightarrow> real \<Rightarrow> PerformanceMetrics \<Rightarrow> PerformanceMetrics" where
  "updateMessagesPerSecond env t0 m =
     (let uptimeSeconds = js_div (js_sub (Fin (dateNow env)) (Fin t0)) (Fin 1000)
      in m\<lparr>messagesPerSecond := js_div (num (totalMessagesProcessed m)) uptimeSeconds\<rparr>)"

definition updateAverageDatabaseLatency :: "jsnum \<Rightarrow> PerformanceMetrics \<Rightarrow> PerformanceMetrics" where
  "updateAverageDatabaseLatency latency m =
     (let total = js_add (js_mul (databaseLatency m)
                                 (js_sub (num (databaseOperationsPerSecond m)) (Fin 1))) latency
      in m\<lparr>databaseLatency := js_div total (num (databaseOperationsPerSecond m))\<rparr>)"

text \<open>\<open>endTimer\<close> returns the duration and the new state.\<close>

definition endTimer :: "Env \<Rightarrow> string \<Rightarrow> PerformanceMonitor \<Rightarrow> jsnum \<times> PerformanceMonitor" where
  "endTimer env operationId st =
     (case processingTimers st operationId of
        None \<Rightarrow> (Fin 0, st)
      | Some timer \<Rightarrow>
          (let duration = js_sub (Fin (perfNow env)) (Fin (start timer))
           in (duration,
               st\<lparr>processingTimers := (processingTimers st)(operationId := None),
                  metrics := updateAverageProcessingTime duration (metrics st)\<rparr>)))"

definition recordMessageProcessed :: "Env \<Rightarrow> PerformanceMonitor \<Rightarrow> PerformanceMonitor" where
  "recordMessageProcessed env st =
     (let m1 = (metrics st)\<lparr>totalMessagesProcessed := Suc (totalMessagesProcessed (metrics st))\<rparr>;
          m2 = m1\<lparr>lastMessageTime := dateNow env\<rparr>
      in st\<lparr>metrics := updateMessagesPerSecond env (startTime st) m2\<rparr>)"

definition recordDatabaseOperation :: "jsnum \<Rightarrow> bool \<Rightarrow> PerformanceMonitor \<Rightarrow> PerformanceMonitor" where
  "recordDatabaseOperation latency success st =
     (if success then
        (let m1 = updateAverageDatabaseLatency latency (metrics st)
         in st\<lparr>metrics := m1\<lparr>databaseOperationsPerSecond := Suc (databaseOperationsPerSecond m1)\<rparr>\<rparr>)
      else
        st\<lparr>metrics := (metrics st)\<lparr>failedDatabaseOperations :=
                                      Suc (failedDatabaseOperations (metrics st))\<rparr>\<rparr>)"

datatype ActivityType = Account | Transaction

text \<open>
  The optional parameter \<open>amount\<close> is \<open>None\<close> when the caller leaves it out. The test
  \<open>if (amount)\<close> is false for a missing amount and for the numbers \<open>0\<close> and NaN.
\<close>

fun amountGiven :: "jsnum option \<Rightarrow> bool" where
  "amountGiven None = False"
| "amountGiven (Some a) = js_truthy a"

definition foldAmount :: "jsnum \<Rightarrow> TokenMetrics \<Rightarrow> TokenMetrics" where
  "foldAmount amount t =
     (let totalAmount = js_add (js_mul (averageTransactionSize t)
                                       (js_sub (num (transactions t)) (Fin 1))) amount;
          t1 = t\<lparr>averageTransactionSize := js_div totalAmount (num (transactions t))\<rparr>
      in if js_gt amount (largestTransaction t1) then t1\<lparr>largestTransaction := amount\<rparr> else t1)"

text \<open>
  The statements after the guard, run on an object of the store \<open>objects\<close>: what the
  source does when \<open>tokenMetrics[symbol]\<close> is an inherited object. They are the same
  statements as for a \<open>TokenMetrics\<close> object; here each read goes along the prototype
  chain and gives a number by \<open>toNumber\<close>, and each write makes an own property.
\<close>

definition recordOnObject ::
  "Env \<Rightarrow> ActivityType \<Rightarrow> jsnum option \<Rightarrow> jsobject list \<Rightarrow> ref \<Rightarrow> jsobject list" where
  "recordOnObject env ty amount os r =
     (let (os0, d) = newDate os (dateNow env);
          os1 = setProperty os0 r ''lastActivity'' (Ref d)
      in case ty of
           Account \<Rightarrow>
             setProperty os1 r ''accountUpdates''
               (Num (js_add (toNumber (getProperty os1 r ''accountUpdates'')) (Fin 1)))
         | Transaction \<Rightarrow>
             (let os2 = setProperty os1 r ''transactions''
                          (Num (js_add (toNumber (getProperty os1 r ''transactions'')) (Fin 1)))
              in if amountGiven amount then
                   (let totalAmount =
                          js_add (js_mul (toNumber (getProperty os2 r ''averageTransactionSize''))
                                         (js_sub (toNumber (getProperty os2 r ''transactions''))
                                                 (Fin 1)))
                                 (the amount);
                        os3 = setProperty os2 r ''averageTransactionSize''
                                (Num (js_div totalAmount
                                        (toNumber (getProperty os2 r ''transactions''))))
                    in if js_gt (the amount) (toNumber (getProperty os3 r ''largestTransaction''))
                       then setProperty os3 r ''largestTransaction'' (Num (the amount))
                       else os3)
                 else os2))"

text \<open>
  \<open>recordTokenActivity\<close>. The lookup \<open>tokenMetrics[symbol]\<close> gives the
  \<open>TokenMetrics\<close> object of a configured symbol, and for any other symbol what
  \<open>Object.prototype\<close> has under that name. The guard \<open>if (!tokenMetric) return\<close>
  returns on \<open>undefined\<close> and on a falsy number; an object passes it. A number that is
  truthy does not occur under any name in a state that the calls reach
  (\<open>reachable_numbers_nan\<close>), and the state is left as it is there.
\<close>

definition recordTokenActivity ::
  "Env \<Rightarrow> string \<Rightarrow> ActivityType \<Rightarrow> jsnum option \<Rightarrow> PerformanceMonitor \<Rightarrow> PerformanceMonitor" where
  "recordTokenActivity env symb ty amount st =
     (case tokenMetrics (metrics st) symb of
        None \<Rightarrow>
          (case getProperty (objects st) objectPrototype symb of
             Undefined \<Rightarrow> st
           | Num n \<Rightarrow> st
           | Ref r \<Rightarrow> st\<lparr>objects := recordOnObject env ty amount (objects st) r\<rparr>)
      | Some r \<Rightarrow>
          (case heap st r of
             None \<Rightarrow> st
           | Some tokenMetric \<Rightarrow>
               (let t1 = tokenMetric\<lparr>lastActivity := dateNow env\<rparr>;
                    t2 = (case ty of
                            Account \<Rightarrow> t1\<lparr>accountUpdates := Suc (accountUpdates t1)\<rparr>
                          | Transaction \<Rightarrow>
                              (let t3 = t1\<lparr>transactions := Suc (transactions t1)\<rparr>
                               in if amountGiven amount then foldAmount (the amount) t3 else t3))
                in st\<lparr>heap := (heap st)(r \<mapsto> t2)\<rparr>)))"

definition recordStreamError :: "PerformanceMonitor \<Rightarrow> PerformanceMonitor" where
  "recordStreamError st = st\<lparr>metrics := (metrics st)\<lparr>streamErrors := Suc (streamErrors (metrics st))\<rparr>\<rparr>"

definition recordReconnection :: "PerformanceMonitor \<Rightarrow> PerformanceMonitor" where
  "recordReconnection st =
     st\<lparr>metrics := (metrics st)\<lparr>reconnectionCount := Suc (reconnectionCount (metrics st))\<rparr>\<rparr>"

definition recordAlertSent :: "bool \<Rightarrow> PerformanceMonitor \<Rightarrow> PerformanceMonitor" where
  "recordAlertSent success st =
     (if success then st\<lparr>metrics := (metrics st)\<lparr>alertsSent := Suc (alertsSent (metrics st))\<rparr>\<rparr>
      else st\<lparr>metrics := (metrics st)\<lparr>alertsFailedToSend := Suc (alertsFailedToSend (metrics st))\<rparr>\<rparr>)"

definition updateSystemMetrics :: "Env \<Rightarrow> PerformanceMonitor \<Rightarrow> PerformanceMonitor" where
  "updateSystemMetrics env st =
     st\<lparr>metrics := (metrics st)
          \<lparr>memoryUsage := procMemoryUsage env,
           connectionUptime := js_sub (Fin (dateNow env)) (Fin (startTime st)),
           cpuUsage := js_div (js_add (procCpuUser env) (procCpuSystem env)) (Fin 1000000)\<rparr>\<rparr>"

text \<open>
  \<open>getMetrics\<close> returns \<open>{ ...this.metrics }\<close>: a new object with the value of every
  field of \<open>metrics\<close>. The field \<open>tokenMetrics\<close> is a reference, so the copy refers to the
  same \<open>TokenMetrics\<close> objects as the monitor: the returned record carries the same
  references into the store.
\<close>

definition getMetrics :: "Env \<Rightarrow> PerformanceMonitor \<Rightarrow> PerformanceMetrics \<times> PerformanceMonitor" where
  "getMetrics env st = (let st1 = updateSystemMetrics env st in (metrics st1, st1))"

text \<open>
  What the holder of a metrics object \<open>s\<close> reads as \<open>s.tokenMetrics[symb]\<close> while the
  program is in state \<open>st\<close>.
\<close>

definition readTokenMetrics :: "PerformanceMonitor \<Rightarrow> PerformanceMetrics \<Rightarrow> string \<Rightarrow> TokenMetrics option" where
  "readTokenMetrics st s symb =
     (case tokenMetrics s symb of None \<Rightarrow> None | Some r \<Rightarrow> heap st r)"

subsection \<open>Health checks\<close>

text \<open>Each check takes the issue list and returns its verdict with the list it leaves.\<close>

text \<open>
  The constant \<open>errorRate\<close> of \<open>checkDatabaseHealth\<close>, as the source computes it: a
  division with no test of the denominator before it.
\<close>

definition errorRate :: "PerformanceMetrics \<Rightarrow> jsnum" where
  "errorRate m =
     js_div (num (failedDatabaseOperations m))
            (js_add (num (databaseOperationsPerSecond m)) (num (failedDatabaseOperations m)))"

definition checkDatabaseHealth :: "PerformanceMetrics \<Rightarrow> Issue list \<Rightarrow> Health \<times> Issue list" where
  "checkDatabaseHealth m iss =
     (if js_gt (databaseLatency m) MAX_DATABASE_LATENCY
      then (Warning, iss @ [HighDatabaseLatency (databaseLatency m)])
      else
        (let errorRate = js_div (num (failedDatabaseOperations m))
                                (js_add (num (databaseOperationsPerSecond m))
                                        (num (failedDatabaseOperations m)))
         in if js_gt errorRate MAX_ERROR_RATE
            then (Critical, iss @ [HighDatabaseErrorRate errorRate])
            else (Healthy, iss)))"

definition checkStreamHealth :: "Env \<Rightarrow> PerformanceMetrics \<Rightarrow> Issue list \<Rightarrow> Health \<times> Issue list" where
  "checkStreamHealth env m iss =
     (let timeSinceLastMessage = js_sub (Fin (dateNow env)) (Fin (lastMessageTime m))
      in if js_gt timeSinceLastMessage MAX_STREAM_SILENCE
         then (Critical, iss @ [StreamSilent timeSinceLastMessage])
         else if 5 < streamErrors m
         then (Warning, iss @ [MultipleStreamErrors (streamErrors m)])
         else (Healthy, iss))"

definition checkMemoryHealth :: "PerformanceMetrics \<Rightarrow> Issue list \<Rightarrow> Health \<times> Issue list" where
  "checkMemoryHealth m iss =
     (let memoryUsed = heapUsed (memoryUsage m)
      in if js_gt memoryUsed MAX_MEMORY_USAGE
         then (Warning, iss @ [HighMemoryUsage memoryUsed])
         else (Healthy, iss))"

definition checkAlertHealth :: "PerformanceMetrics \<Rightarrow> Issue list \<Rightarrow> Health \<times> Issue list" where
  "checkAlertHealth m iss =
     (let totalAlerts = alertsSent m + alertsFailedToSend m
      in if totalAlerts = 0 then (Healthy, iss)
         else
           (let failureRate = js_div (num (alertsFailedToSend m)) (num totalAlerts)
            in if js_gt failureRate (Fin (5 / 10))
               then (Critical, iss @ [HighAlertFailureRate failureRate])
               else if js_gt failureRate (Fin (1 / 10))
               then (Warning, iss @ [SomeAlertFailures failureRate])
               else (Healthy, iss)))"

definition getHealthStatus :: "Env \<Rightarrow> PerformanceMonitor \<Rightarrow> HealthStatus \<times> PerformanceMonitor" where
  "getHealthStatus env st =
     (let st1 = updateSystemMetrics env st;
          m = metrics st1;
          (dbHealth, i1) = checkDatabaseHealth m [];
          (streamHealth, i2) = checkStreamHealth env m i1;
          (memoryHealth, i3) = checkMemoryHealth m i2;
          (alertHealth, i4) = checkAlertHealth m i3;
          healthLevels = [dbHealth, streamHealth, memoryHealth, alertHealth];
          overallHealth = (if Critical \<in> set healthLevels then Critical
                           else if Warning \<in> set healthLevels then Warning
                           else Healthy)
      in (\<lparr>overall = overallHealth,
           services = \<lparr>database = dbHealth, grpcStream = streamHealth,
                       alertSystem = alertHealth, memory = memoryHealth\<rparr>,
           issues = i4,
           uptime = connectionUptime m\<rparr>, st1))"

subsection \<open>Sequences of calls\<close>

text \<open>
  A call of a public method, and the run of a list of calls, each with the readings it
  takes from outside. The values that \<open>endTimer\<close>, \<open>getMetrics\<close> and
  \<open>getHealthStatus\<close> return are dropped: only the state goes on.
\<close>

datatype Call =
    StartTimer string string
  | EndTimer string
  | RecordMessageProcessed
  | RecordDatabaseOperation jsnum bool
  | RecordTokenActivity string ActivityType "jsnum option"
  | RecordStreamError
  | RecordReconnection
  | RecordAlertSent bool
  | UpdateSystemMetrics
  | GetMetrics
  | GetHealthStatus

fun call :: "Env \<Rightarrow> Call \<Rightarrow> PerformanceMonitor \<Rightarrow> PerformanceMonitor" where
  "call env (StartTimer i l) st = startTimer env i l st"
| "call env (EndTimer i) st = snd (endTimer env i st)"
| "call env RecordMessageProcessed st = recordMessageProcessed env st"
| "call env (RecordDatabaseOperation l s) st = recordDatabaseOperation l s st"
| "call env (RecordTokenActivity symb ty a) st = recordTokenActivity env symb ty a st"
| "call env RecordStreamError st = recordStreamError st"
| "call env RecordReconnection st = recordReconnection st"
| "call env (RecordAlertSent s) st = recordAlertSent s st"
| "call env UpdateSystemMetrics st = updateSystemMetrics env st"
| "call env GetMetrics st = snd (getMetrics env st)"
| "call env GetHealthStatus st = snd (getHealthStatus env st)"

fun run :: "(Env \<times> Call) list \<Rightarrow> PerformanceMonitor \<Rightarrow> PerformanceMonitor" where
  "run [] st = st"
| "run ((env, c) # cs) st = run cs (call env c st)"

text \<open>A fixed reading of the outside, for concrete runs.\<close>

definition env0 :: Env where
  "env0 = \<lparr>dateNow = 0, perfNow = 0,
           procMemoryUsage = \<lparr>rss = Fin 0, heapTotal = Fin 0, heapUsed = Fin 0,
                              external = Fin 0, arrayBuffers = Fin 0\<rparr>,
           procCpuUser = Fin 0, procCpuSystem = Fin 0\<rparr>"


subsection \<open>Concrete runs\<close>

text \<open>
  A message handled the way \<open>handleData\<close> does it: the timer is started, the message is
  recorded, and the timer is still running.
\<close>

definition processedMessage :: PerformanceMonitor where
  "processedMessage =
     recordMessageProcessed env0
       (startTimer env0 ''msg-1'' ''message_processing'' (newPerformanceMonitor env0))"

text \<open>Two timers started, the first of them stopped again.\<close>

definition stoppedOnce :: PerformanceMonitor where
  "stoppedOnce =
     snd (endTimer env0 ''db-slot-1''
            (startTimer env0 ''db-block-2'' ''database_block_insert''
               (startTimer env0 ''db-slot-1'' ''database_slot_insert''
                  (newPerformanceMonitor env0))))"

text \<open>The object that \<open>getMetrics\<close> returns on a new monitor, and the state it leaves.\<close>

definition snapshotTaken :: "PerformanceMetrics \<times> PerformanceMonitor" where
  "snapshotTaken = getMetrics env0 (newPerformanceMonitor env0)"

definition oneSuccessOneFailure :: PerformanceMonitor where
  "oneSuccessOneFailure =
     run [(env0, RecordDatabaseOperation (Fin 600) True),
          (env0, RecordDatabaseOperation (Fin 600) False)] (newPerformanceMonitor env0)"

definition threeTransactions :: PerformanceMonitor where
  "threeTransactions =
     run [(env0, RecordTokenActivity ''USDC'' Transaction (Some (Fin 10))),
          (env0, RecordTokenActivity ''USDC'' Transaction None),
          (env0, RecordTokenActivity ''USDC'' Transaction (Some (Fin 20)))]
       (newPerformanceMonitor env0)"

text \<open>Activity recorded for the symbol \<open>__proto__\<close> on a new monitor.\<close>

definition protoRecorded :: PerformanceMonitor where
  "protoRecorded = recordTokenActivity env0 ''__proto__'' Account None (newPerformanceMonitor env0)"

definition oneAlertFailedOfTwo :: PerformanceMonitor where
  "oneAlertFailedOfTwo =
     run [(env0, RecordAlertSent True), (env0, RecordAlertSent False)]
       (newPerformanceMonitor env0)"


section \<open>The initial state\<close>

lemma ref_two: "Suc (Suc 0) = 2"
  by simp

lemma seedTokens_supported:
  "seedTokens now SUPPORTED_TOKENS 0 (Map.empty, Map.empty) =
    ([''USDC'' \<mapsto> 0, ''USDT'' \<mapsto> 1, ''SOL'' \<mapsto> 2, ''BONK'' \<mapsto> 3, ''JUP'' \<mapsto> 4],
     [0 \<mapsto> \<lparr>symbol = ''USDC'', accountUpdates = 0, transactions = 0,
             averageTransactionSize = Fin 0, largestTransaction = Fin 0, lastActivity = now\<rparr>,
      1 \<mapsto> \<lparr>symbol = ''USDT'', accountUpdates = 0, transactions = 0,
             averageTransactionSize = Fin 0, largestTransaction = Fin 0, lastActivity = now\<rparr>,
      2 \<mapsto> \<lparr>symbol = ''SOL'', accountUpdates = 0, transactions = 0,
             averageTransactionSize = Fin 0, largestTransaction = Fin 0, lastActivity = now\<rparr>,
      3 \<mapsto> \<lparr>symbol = ''BONK'', accountUpdates = 0, transactions = 0,
             averageTransactionSize = Fin 0, largestTransaction = Fin 0, lastActivity = now\<rparr>,
      4 \<mapsto> \<lparr>symbol = ''JUP'', accountUpdates = 0, transactions = 0,
             averageTransactionSize = Fin 0, largestTransaction = Fin 0, lastActivity = now\<rparr>])"
  by (simp add: SUPPORTED_TOKENS_def ref_two)

lemma init_timers: "processingTimers (newPerformanceMonitor env) = Map.empty"
  by (simp add: newPerformanceMonitor_def initializeMetrics_def split_def Let_def)

lemma init_metrics:
  "metrics (newPerformanceMonitor env) =
     \<lparr>messagesPerSecond = Fin 0, totalMessagesProcessed = 0,
      averageProcessingTime = Fin 0, databaseLatency = Fin 0,
      databaseOperationsPerSecond = 0, failedDatabaseOperations = 0,
      memoryUsage = procMemoryUsage env, cpuUsage = Fin 0,
      connectionUptime = Fin 0, lastMessageTime = dateNow env,
      streamErrors = 0, reconnectionCount = 0, alertsSent = 0,
      alertsFailedToSend = 0,
      tokenMetrics = [''USDC'' \<mapsto> 0, ''USDT'' \<mapsto> 1, ''SOL'' \<mapsto> 2, ''BONK'' \<mapsto> 3, ''JUP'' \<mapsto> 4]\<rparr>"
  by (simp add: newPerformanceMonitor_def initializeMetrics_def seedTokens_supported Let_def)

lemma init_heap:
  "heap (newPerformanceMonitor env) =
    [0 \<mapsto> \<lparr>symbol = ''USDC'', accountUpdates = 0, transactions = 0,
            averageTransactionSize = Fin 0, largestTransaction = Fin 0,
            lastActivity = dateNow env\<rparr>,
     1 \<mapsto> \<lparr>symbol = ''USDT'', accountUpdates = 0, transactions = 0,
            averageTransactionSize = Fin 0, largestTransaction = Fin 0,
            lastActivity = dateNow env\<rparr>,
     2 \<mapsto> \<lparr>symbol = ''SOL'', accountUpdates = 0, transactions = 0,
            averageTransactionSize = Fin 0, largestTransaction = Fin 0,
            lastActivity = dateNow env\<rparr>,
     3 \<mapsto> \<lparr>symbol = ''BONK'', accountUpdates = 0, transactions = 0,
            averageTransactionSize = Fin 0, largestTransaction = Fin 0,
            lastActivity = dateNow env\<rparr>,
     4 \<mapsto> \<lparr>symbol = ''JUP'', accountUpdates = 0, transactions = 0,
            averageTransactionSize = Fin 0, largestTransaction = Fin 0,
            lastActivity = dateNow env\<rparr>]"
  by (simp add: newPerformanceMonitor_def initializeMetrics_def seedTokens_supported Let_def)

text \<open>Every configured symbol has its object from the start.\<close>

lemma configured_has_object:
  assumes "symb \<in> set configuredSymbols"
  shows "\<exists>r t. tokenMetrics (metrics (newPerformanceMonitor env)) symb = Some r \<and>
           heap (newPerformanceMonitor env) r = Some t"
  using assms by (auto simp: init_metrics init_heap configuredSymbols_def SUPPORTED_TOKENS_def)

lemma init_objects: "objects (newPerformanceMonitor env) = initialObjects"
  by (simp add: newPerformanceMonitor_def initializeMetrics_def split_def Let_def)

section \<open>The inherited objects\<close>

text \<open>A property of \<open>Object.prototype\<close> is its own or is missing: it has no prototype.\<close>

lemma getProperty_root:
  assumes "os \<noteq> []" and "proto (os ! 0) = None"
  shows "getProperty os 0 k =
           (case props (os ! 0) k of Some v \<Rightarrow> v | None \<Rightarrow> Undefined)"
proof -
  obtain n where n: "length os = Suc n" using assms(1) by (cases os) auto
  show ?thesis using assms(2) by (simp add: getProperty_def n split: option.splits)
qed

lemma js_div_nan: "js_div x NaN = NaN"
  by (cases x) simp_all

lemma js_gt_nan: "js_gt x NaN = False"
  by (cases x) simp_all

text \<open>
  Every number that is a property of an object of the store is NaN. Then whatever the
  statements after the guard read is NaN as a number, and what they write is NaN again.
\<close>

lemma getProp_nan:
  assumes "\<forall>ob \<in> set os. \<forall>k n. props ob k = Some (Num n) \<longrightarrow> n = NaN"
  shows "toNumber (getProp fuel os r k) = NaN"
proof (induction fuel arbitrary: r)
  case 0
  show ?case by simp
next
  case (Suc fuel)
  show ?case
  proof (cases "r < length os")
    case False
    then show ?thesis by simp
  next
    case True
    then have mem: "os ! r \<in> set os" by simp
    show ?thesis
    proof (cases "props (os ! r) k")
      case None
      then show ?thesis using True Suc.IH by (simp split: option.splits)
    next
      case (Some v)
      then have "toNumber v = NaN" using assms mem by (cases v) auto
      then show ?thesis using True Some by simp
    qed
  qed
qed

lemma getProperty_nan:
  assumes "\<forall>ob \<in> set os. \<forall>k n. props ob k = Some (Num n) \<longrightarrow> n = NaN"
  shows "toNumber (getProperty os r k) = NaN"
  unfolding getProperty_def using assms by (rule getProp_nan)

lemma setProperty_nan:
  assumes "\<forall>ob \<in> set os. \<forall>k n. props ob k = Some (Num n) \<longrightarrow> n = NaN"
    and "\<forall>n. v = Num n \<longrightarrow> n = NaN"
  shows "\<forall>ob \<in> set (setProperty os r j v). \<forall>k n. props ob k = Some (Num n) \<longrightarrow> n = NaN"
proof (cases "r < length os")
  case False
  then show ?thesis using assms(1) by (simp add: setProperty_def)
next
  case True
  then have mem: "os ! r \<in> set os" by simp
  have new: "\<forall>k n. props ((os ! r)\<lparr>props := (props (os ! r))(j \<mapsto> v)\<rparr>) k = Some (Num n) \<longrightarrow> n = NaN"
    using assms mem by auto
  have "set (os[r := (os ! r)\<lparr>props := (props (os ! r))(j \<mapsto> v)\<rparr>])
          \<subseteq> insert ((os ! r)\<lparr>props := (props (os ! r))(j \<mapsto> v)\<rparr>) (set os)"
    by (rule set_update_subset_insert)
  then show ?thesis using True assms(1) new by (auto simp: setProperty_def)
qed

lemma newDate_nan:
  assumes "\<forall>ob \<in> set os. \<forall>k n. props ob k = Some (Num n) \<longrightarrow> n = NaN"
  shows "\<forall>ob \<in> set (fst (newDate os t)). \<forall>k n. props ob k = Some (Num n) \<longrightarrow> n = NaN"
  using assms by (simp add: newDate_def)

lemma recordOnObject_nan:
  assumes "\<forall>ob \<in> set os. \<forall>k n. props ob k = Some (Num n) \<longrightarrow> n = NaN"
  shows "\<forall>ob \<in> set (recordOnObject env ty amount os r).
           \<forall>k n. props ob k = Some (Num n) \<longrightarrow> n = NaN"
proof -
  let ?os0 = "fst (newDate os (dateNow env))"
  let ?os1 = "setProperty ?os0 r ''lastActivity'' (Ref (snd (newDate os (dateNow env))))"
  let ?os2 = "setProperty ?os1 r ''transactions'' (Num NaN)"
  let ?os3 = "setProperty ?os2 r ''averageTransactionSize'' (Num NaN)"
  have i0: "\<forall>ob \<in> set ?os0. \<forall>k n. props ob k = Some (Num n) \<longrightarrow> n = NaN"
    using assms by (rule newDate_nan)
  have i1: "\<forall>ob \<in> set ?os1. \<forall>k n. props ob k = Some (Num n) \<longrightarrow> n = NaN"
    using i0 by (rule setProperty_nan) simp
  have i2: "\<forall>ob \<in> set ?os2. \<forall>k n. props ob k = Some (Num n) \<longrightarrow> n = NaN"
    using i1 by (rule setProperty_nan) simp
  have i3: "\<forall>ob \<in> set ?os3. \<forall>k n. props ob k = Some (Num n) \<longrightarrow> n = NaN"
    using i2 by (rule setProperty_nan) simp
  have acc: "\<forall>ob \<in> set (setProperty ?os1 r ''accountUpdates'' (Num NaN)).
               \<forall>k n. props ob k = Some (Num n) \<longrightarrow> n = NaN"
    using i1 by (rule setProperty_nan) simp
  show ?thesis
  proof (cases ty)
    case Account
    then show ?thesis using acc
      by (simp add: recordOnObject_def split_def Let_def getProperty_nan [OF i1])
  next
    case Transaction
    then show ?thesis using i2 i3
      by (simp add: recordOnObject_def split_def Let_def getProperty_nan [OF i1]
          getProperty_nan [OF i2] getProperty_nan [OF i3] js_div_nan js_gt_nan)
  qed
qed

lemma initialObjects_nan:
  "\<forall>ob \<in> set initialObjects. \<forall>k n. props ob k = Some (Num n) \<longrightarrow> n = NaN"
  by (auto simp: initialObjects_def functionObject_def objectPrototypeProps_def
      split: if_splits)

section \<open>What no call changes\<close>

lemma snd_getMetrics: "snd (getMetrics env st) = updateSystemMetrics env st"
  by (simp add: getMetrics_def Let_def)

lemma snd_getHealthStatus: "snd (getHealthStatus env st) = updateSystemMetrics env st"
  by (simp add: getHealthStatus_def Let_def split_def)

lemmas call_defs = startTimer_def endTimer_def recordMessageProcessed_def
  recordDatabaseOperation_def recordTokenActivity_def recordStreamError_def
  recordReconnection_def recordAlertSent_def updateSystemMetrics_def snd_getMetrics
  snd_getHealthStatus updateAverageProcessingTime_def updateMessagesPerSecond_def
  updateAverageDatabaseLatency_def

text \<open>The keys of \<open>tokenMetrics\<close> and the references behind them are those of the start.\<close>

lemma call_tokenMetrics: "tokenMetrics (metrics (call env c st)) = tokenMetrics (metrics st)"
  by (cases c) (simp_all add: call_defs Let_def split_def split: option.splits jsval.splits)

lemma run_tokenMetrics: "tokenMetrics (metrics (run cs st)) = tokenMetrics (metrics st)"
  by (induction cs arbitrary: st) (auto simp: call_tokenMetrics)

text \<open>No object is added to the store or removed from it.\<close>

lemma call_heap_dom: "(heap (call env c st) r = None) = (heap st r = None)"
  by (cases c) (simp_all add: call_defs Let_def split_def split: option.splits jsval.splits)

lemma run_heap_dom: "(heap (run cs st) r = None) = (heap st r = None)"
  by (induction cs arbitrary: st) (auto simp: call_heap_dom)

text \<open>In the states that the calls reach, no number of the store is truthy.\<close>

lemma call_numbers_nan:
  assumes "\<forall>ob \<in> set (objects st). \<forall>k n. props ob k = Some (Num n) \<longrightarrow> n = NaN"
  shows "\<forall>ob \<in> set (objects (call env c st)). \<forall>k n. props ob k = Some (Num n) \<longrightarrow> n = NaN"
proof (cases c)
  case (RecordTokenActivity symb ty a)
  show ?thesis
    unfolding RecordTokenActivity call.simps recordTokenActivity_def
    using assms recordOnObject_nan [OF assms]
    by (simp add: Let_def split: option.splits jsval.splits)
qed (use assms in \<open>simp_all add: call_defs Let_def split_def split: option.splits\<close>)

lemma run_numbers_nan:
  assumes "\<forall>ob \<in> set (objects st). \<forall>k n. props ob k = Some (Num n) \<longrightarrow> n = NaN"
  shows "\<forall>ob \<in> set (objects (run cs st)). \<forall>k n. props ob k = Some (Num n) \<longrightarrow> n = NaN"
  using assms
proof (induction cs arbitrary: st)
  case Nil
  then show ?case by simp
next
  case (Cons p cs)
  obtain env c where p: "p = (env, c)" by (cases p)
  have "\<forall>ob \<in> set (objects (call env c st)). \<forall>k n. props ob k = Some (Num n) \<longrightarrow> n = NaN"
    using Cons.prems by (rule call_numbers_nan)
  then show ?case unfolding p run.simps by (rule Cons.IH)
qed

lemma reachable_numbers_nan:
  assumes "getProperty (objects (run cs (newPerformanceMonitor env))) objectPrototype symb = Num n"
  shows "n = NaN"
proof -
  have "\<forall>ob \<in> set (objects (run cs (newPerformanceMonitor env))).
          \<forall>k n. props ob k = Some (Num n) \<longrightarrow> n = NaN"
    by (rule run_numbers_nan) (simp add: init_objects initialObjects_nan)
  then have "toNumber (getProperty (objects (run cs (newPerformanceMonitor env)))
                         objectPrototype symb) = NaN"
    by (rule getProperty_nan)
  then show ?thesis using assms by simp
qed

section \<open>Symbols that are not configured\<close>

text \<open>
  For a symbol without an entry in \<open>tokenMetrics\<close> the call leaves the fields of the
  monitor and every \<open>TokenMetrics\<close> object as they are; what it may write is in the store
  of the inherited objects.
\<close>

lemma recordTokenActivity_unconfigured_fields:
  assumes "tokenMetrics (metrics st) symb = None"
  shows "metrics (recordTokenActivity env symb ty amount st) = metrics st \<and>
         heap (recordTokenActivity env symb ty amount st) = heap st \<and>
         processingTimers (recordTokenActivity env symb ty amount st) = processingTimers st \<and>
         startTime (recordTokenActivity env symb ty amount st) = startTime st"
  using assms by (simp add: recordTokenActivity_def split: jsval.splits)

text \<open>When \<open>Object.prototype\<close> has nothing under the symbol either, the call is a no-op.\<close>

lemma recordTokenActivity_unknown_noop:
  assumes "tokenMetrics (metrics st) symb = None"
    and "getProperty (objects st) objectPrototype symb = Undefined"
  shows "recordTokenActivity env symb ty amount st = st"
  using assms by (simp add: recordTokenActivity_def)

section \<open>The database latency\<close>





section \<open>The verdicts inside \<open>getHealthStatus\<close>\<close>

lemma getHealthStatus_database:
  "database (services (fst (getHealthStatus env st))) =
     fst (checkDatabaseHealth (metrics (updateSystemMetrics env st)) [])"
  by (simp add: getHealthStatus_def Let_def split_def)

lemma getHealthStatus_alertSystem:
  "alertSystem (services (fst (getHealthStatus env st))) = fst (checkAlertHealth (metrics st) [])"
  by (simp add: getHealthStatus_def Let_def split_def checkAlertHealth_def updateSystemMetrics_def)

text \<open>
  The latency test of \<open>checkDatabaseHealth\<close> comes first and returns: a latency above its
  threshold gives \<open>warning\<close> whatever the error rate is. Only below it does the error rate
  decide.
\<close>

lemma checkDatabaseHealth_latency_first:
  "js_gt (databaseLatency m) MAX_DATABASE_LATENCY \<Longrightarrow> fst (checkDatabaseHealth m iss) = Warning"
  by (simp add: checkDatabaseHealth_def)

lemma checkDatabaseHealth_latency_within:
  "\<not> js_gt (databaseLatency m) MAX_DATABASE_LATENCY \<Longrightarrow>
   0 < databaseOperationsPerSecond m + failedDatabaseOperations m \<Longrightarrow>
   fst (checkDatabaseHealth m iss) =
     (if 5 / 100 < real (failedDatabaseOperations m) /
                    real (databaseOperationsPerSecond m + failedDatabaseOperations m)
      then Critical else Healthy)"
  by (simp add: checkDatabaseHealth_def Let_def num_def MAX_ERROR_RATE_def)

section \<open>Transaction sizes when every call brings an amount\<close>

lemma recordTokenActivity_amount:
  assumes "tokenMetrics (metrics st) symb = Some r" and "heap st r = Some t"
    and "averageTransactionSize t = Fin m" and "largestTransaction t = Fin l" and "a \<noteq> 0"
  shows "heap (recordTokenActivity env symb Transaction (Some (Fin a)) st) r =
           Some (t\<lparr>lastActivity := dateNow env,
                   transactions := Suc (transactions t),
                   averageTransactionSize :=
                     Fin ((m * real (transactions t) + a) / real (Suc (transactions t))),
                   largestTransaction := Fin (max a l)\<rparr>)"
  using assms
  by (simp add: recordTokenActivity_def foldAmount_def Let_def num_def js_sub_def max_def)

text \<open>
  The invariant of the running mean: the average times the count is the sum of the amounts
  folded so far. It holds as long as every \<open>transaction\<close> call brings an amount that
  \<open>if (amount)\<close> accepts, since then \<open>transactions\<close> counts the amounts.
\<close>

lemma transactions_running_mean:
  assumes "tokenMetrics (metrics st) symb = Some r" and "heap st r = Some t"
    and "averageTransactionSize t = Fin m" and "largestTransaction t = Fin l"
    and "\<forall>z \<in> set zs. snd z \<noteq> 0"
  shows "\<exists>t' m'. heap (run (map (\<lambda>(e, a). (e, RecordTokenActivity symb Transaction (Some (Fin a)))) zs) st) r
             = Some t' \<and>
           transactions t' = transactions t + length zs \<and>
           averageTransactionSize t' = Fin m' \<and>
           m' * real (transactions t') = m * real (transactions t) + sum_list (map snd zs) \<and>
           largestTransaction t' = Fin (fold max (map snd zs) l)"
  using assms
proof (induction zs arbitrary: st t m l)
  case Nil
  then show ?case by simp
next
  case (Cons z zs)
  obtain e a where z: "z = (e, a)" by (cases z)
  let ?st = "recordTokenActivity e symb Transaction (Some (Fin a)) st"
  let ?m = "(m * real (transactions t) + a) / real (Suc (transactions t))"
  let ?t = "t\<lparr>lastActivity := dateNow e, transactions := Suc (transactions t),
               averageTransactionSize := Fin ?m, largestTransaction := Fin (max a l)\<rparr>"
  have a: "a \<noteq> 0" using Cons.prems(5) z by simp
  have h: "heap ?st r = Some ?t"
    using Cons.prems(1-4) a by (rule recordTokenActivity_amount)
  have k: "tokenMetrics (metrics ?st) symb = Some r"
    using Cons.prems(1) call_tokenMetrics [of e "RecordTokenActivity symb Transaction (Some (Fin a))" st]
    by simp
  have rest: "\<forall>z \<in> set zs. snd z \<noteq> 0" using Cons.prems(5) by simp
  obtain t' m' where
    1: "heap (run (map (\<lambda>(e, a). (e, RecordTokenActivity symb Transaction (Some (Fin a)))) zs) ?st) r = Some t'"
    and 2: "transactions t' = transactions ?t + length zs"
    and 3: "averageTransactionSize t' = Fin m'"
    and 4: "m' * real (transactions t') = ?m * real (transactions ?t) + sum_list (map snd zs)"
    and 5: "largestTransaction t' = Fin (fold max (map snd zs) (max a l))"
    using Cons.IH [OF k h _ _ rest, of ?m "max a l"] by auto
  have "?m * real (transactions ?t) = m * real (transactions t) + a"
    by simp
  with 4 have s4: "m' * real (transactions t') = m * real (transactions t) + sum_list (map snd (z # zs))"
    using z by simp
  show ?case
    using 1 2 3 s4 5 z by simp
qed

lemma fold_max_Max: "fold max xs (l::real) = Max (set (l # xs))"
  by (rule Max.set_eq_fold [symmetric])

text \<open>
  On a new monitor, \<open>transaction\<close> calls for one configured symbol that all bring a
  positive amount leave the mean and the maximum of the amounts.
\<close>

lemma transactions_with_amounts_mean:
  assumes "symb \<in> set configuredSymbols" and "zs \<noteq> []" and "\<forall>z \<in> set zs. 0 < snd z"
    and "st = run (map (\<lambda>(e, a). (e, RecordTokenActivity symb Transaction (Some (Fin a)))) zs)
                 (newPerformanceMonitor env)"
  shows "map_option averageTransactionSize (readTokenMetrics st (metrics st) symb) =
           Some (Fin (sum_list (map snd zs) / real (length zs))) \<and>
         map_option largestTransaction (readTokenMetrics st (metrics st) symb) =
           Some (Fin (Max (set (map snd zs))))"
proof -
  obtain r t where r: "tokenMetrics (metrics (newPerformanceMonitor env)) symb = Some r"
    and t: "heap (newPerformanceMonitor env) r = Some t"
    using configured_has_object [OF assms(1)] by blast
  have t0: "averageTransactionSize t = Fin 0 \<and> largestTransaction t = Fin 0 \<and> transactions t = 0"
    using r t by (auto simp: init_metrics init_heap split: if_splits)
  have nz: "\<forall>z \<in> set zs. snd z \<noteq> 0" using assms(3) by auto
  obtain t' m' where
    1: "heap st r = Some t'"
    and 2: "transactions t' = transactions t + length zs"
    and 3: "averageTransactionSize t' = Fin m'"
    and 4: "m' * real (transactions t') = 0 * real (transactions t) + sum_list (map snd zs)"
    and 5: "largestTransaction t' = Fin (fold max (map snd zs) 0)"
    using transactions_running_mean [OF r t _ _ nz, of 0 0] t0 assms(4) by auto
  have len: "0 < length zs" using assms(2) by simp
  have m': "m' = sum_list (map snd zs) / real (length zs)"
    using 2 4 t0 len by (simp add: field_simps)
  have "fold max (map snd zs) 0 = Max (set (0 # map snd zs))"
    by (rule fold_max_Max)
  also have "\<dots> = Max (set (map snd zs))"
  proof -
    obtain z where "z \<in> set zs" using assms(2) by (cases zs) auto
    then have "0 < snd z" "snd z \<in> set (map snd zs)" using assms(3) by auto
    then have "0 \<le> Max (set (map snd zs))"
      by (meson List.finite_set Max_ge less_le_not_le order_trans linear)
    then show ?thesis using assms(2) by (simp add: max_def)
  qed
  finally have l: "fold max (map snd zs) 0 = Max (set (map snd zs))" .
  have k: "tokenMetrics (metrics st) symb = Some r"
    using r assms(4) by (simp add: run_tokenMetrics)
  show ?thesis using 1 3 5 k m' l by (simp add: readTokenMetrics_def)
qed

section \<open>Database latency average\<close>

text \<open>
  C1. The specification states that after any sequence of \<open>recordDatabaseOperation(latency, true)\<close> calls
  on a new monitor, \<open>databaseLatency\<close> is the arithmetic mean of the latencies supplied.
  The code does not compute it. \<open>recordDatabaseOperation\<close> calls
  \<open>updateAverageDatabaseLatency\<close> before it increments
  \<open>databaseOperationsPerSecond\<close>, so the first update divides by \<open>0\<close>: one call with
  latency 100 leaves Infinity, not 100, and the calls 100, 200, 300 leave NaN, not 200
  (\<open>Infinity * 0\<close> is NaN). By \<open>reachable_latency\<close> the field is never a finite number
  again once a successful operation is recorded.
\<close>

theorem database_latency_divides_by_zero_count:
  "databaseLatency (metrics (recordDatabaseOperation (Fin 100) True (newPerformanceMonitor env0)))
     = PInf \<and>
   databaseLatency (metrics (run [(env0, RecordDatabaseOperation (Fin 100) True),
                                  (env0, RecordDatabaseOperation (Fin 200) True),
                                  (env0, RecordDatabaseOperation (Fin 300) True)]
                               (newPerformanceMonitor env0))) = NaN"
  by (simp add: recordDatabaseOperation_def updateAverageDatabaseLatency_def init_metrics
      num_def js_sub_def Let_def)

section \<open>Snapshots\<close>

text \<open>
  C2. The specification states that no field of a snapshot returned by \<open>getMetrics\<close>, and no entry of its
  \<open>tokenMetrics\<close>, changes by a later recording call. The spread in \<open>getMetrics\<close>
  copies the fields of \<open>metrics\<close> one level deep, so the snapshot shares the
  \<open>TokenMetrics\<close> objects with the monitor: the holder of a snapshot taken on a new
  monitor reads \<open>accountUpdates\<close> 0 for USDC, and reads 1 from the same snapshot after
  \<open>recordTokenActivity('USDC', 'account')\<close>.
\<close>

theorem snapshot_shares_token_objects:
  "map_option accountUpdates
     (readTokenMetrics (snd snapshotTaken) (fst snapshotTaken) ''USDC'') = Some 0 \<and>
   map_option accountUpdates
     (readTokenMetrics (recordTokenActivity env0 ''USDC'' Account None (snd snapshotTaken))
        (fst snapshotTaken) ''USDC'') = Some 1"
  by (simp add: snapshotTaken_def getMetrics_def updateSystemMetrics_def Let_def
      readTokenMetrics_def recordTokenActivity_def init_metrics init_heap)

section \<open>Database verdict\<close>

text \<open>
  C3. The specification states that, with at least one database operation recorded, the database verdict is
  \<open>critical\<close> whenever the failure rate exceeds its threshold, also when the latency
  exceeds its own. \<open>checkDatabaseHealth\<close> tests the latency first and returns
  \<open>warning\<close> there (\<open>checkDatabaseHealth_latency_first\<close>). After one successful and one
  failed operation of 600 ms each the failure rate is 1/2, above 0.05, the latency field is
  above 500 (it is Infinity, as in C1; the mean 600 would be above 500 as well), and the
  verdict is \<open>warning\<close>.
\<close>

theorem database_latency_warning_hides_error_rate:
  "failedDatabaseOperations (metrics oneSuccessOneFailure) = 1 \<and>
   databaseOperationsPerSecond (metrics oneSuccessOneFailure) = 1 \<and>
   js_gt (databaseLatency (metrics oneSuccessOneFailure)) MAX_DATABASE_LATENCY \<and>
   database (services (fst (getHealthStatus env0 oneSuccessOneFailure))) = Warning"
  by (simp add: oneSuccessOneFailure_def getHealthStatus_database checkDatabaseHealth_def
      updateSystemMetrics_def recordDatabaseOperation_def updateAverageDatabaseLatency_def
      init_metrics num_def js_sub_def Let_def MAX_DATABASE_LATENCY_def)

section \<open>Timer registry\<close>

text \<open>
  C4. For every state of the monitor and every identifier with no entry in
  \<open>processingTimers\<close> (never started, or stopped already), \<open>endTimer\<close> returns exactly
  \<open>0\<close> and changes nothing: every other timer entry, and the rest of the state, is as
  before.
\<close>

theorem endTimer_unknown_id:
  "processingTimers st operationId = None \<Longrightarrow> endTimer env operationId st = (Fin 0, st)"
  by (simp add: endTimer_def)

text \<open>Stopping a timer a second time, while another one is running.\<close>

theorem endTimer_unknown_id_witness:
  "processingTimers stoppedOnce ''db-slot-1'' = None \<and>
   processingTimers stoppedOnce ''db-block-2'' \<noteq> None \<and>
   endTimer env0 ''db-slot-1'' stoppedOnce = (Fin 0, stoppedOnce)"
proof -
  have gone: "processingTimers stoppedOnce ''db-slot-1'' = None"
    by (simp add: stoppedOnce_def endTimer_def startTimer_def Let_def)
  have kept: "processingTimers stoppedOnce ''db-block-2'' \<noteq> None"
    by (simp add: stoppedOnce_def endTimer_def startTimer_def Let_def)
  show ?thesis using gone kept endTimer_unknown_id [OF gone, of env0] by simp
qed

text \<open>
  C5, as amended. For every registered identifier, \<open>endTimer\<close> returns the time elapsed
  since the start, removes the entry of that identifier and leaves every other timer entry
  as it was, and changes one field of the metrics, \<open>averageProcessingTime\<close>, which it
  sets to \<open>(averageProcessingTime * (totalMessagesProcessed - 1) + elapsed) /
  totalMessagesProcessed\<close>; \<open>totalMessagesProcessed\<close>, every other metric and every
  \<open>TokenMetrics\<close> object are unchanged.
\<close>

theorem endTimer_registered_effect:
  assumes "processingTimers st operationId = Some timer"
    and "st' = snd (endTimer env operationId st)"
    and "elapsed = js_sub (Fin (perfNow env)) (Fin (start timer))"
  shows "fst (endTimer env operationId st) = elapsed \<and>
         processingTimers st' = (processingTimers st)(operationId := None) \<and>
         averageProcessingTime (metrics st') =
           js_div (js_add (js_mul (averageProcessingTime (metrics st))
                                  (js_sub (num (totalMessagesProcessed (metrics st))) (Fin 1)))
                          elapsed)
                  (num (totalMessagesProcessed (metrics st))) \<and>
         (metrics st')\<lparr>averageProcessingTime := averageProcessingTime (metrics st)\<rparr> = metrics st \<and>
         heap st' = heap st \<and> objects st' = objects st \<and> startTime st' = startTime st"
  using assms by (simp add: endTimer_def Let_def updateAverageProcessingTime_def)

theorem endTimer_registered_effect_witness:
  "processingTimers processedMessage ''msg-1'' =
     Some \<lparr>start = 0, operation = ''message_processing''\<rparr> \<and>
   fst (endTimer (env0\<lparr>perfNow := 10\<rparr>) ''msg-1'' processedMessage) = Fin 10 \<and>
   processingTimers (snd (endTimer (env0\<lparr>perfNow := 10\<rparr>) ''msg-1'' processedMessage)) ''msg-1''
     = None \<and>
   averageProcessingTime
     (metrics (snd (endTimer (env0\<lparr>perfNow := 10\<rparr>) ''msg-1'' processedMessage))) = Fin 10 \<and>
   totalMessagesProcessed
     (metrics (snd (endTimer (env0\<lparr>perfNow := 10\<rparr>) ''msg-1'' processedMessage))) = 1"
proof -
  have running: "processingTimers processedMessage ''msg-1'' =
      Some \<lparr>start = 0, operation = ''message_processing''\<rparr>"
    by (simp add: processedMessage_def recordMessageProcessed_def startTimer_def env0_def Let_def)
  have one: "totalMessagesProcessed (metrics processedMessage) = 1"
    by (simp add: processedMessage_def recordMessageProcessed_def startTimer_def
        updateMessagesPerSecond_def init_metrics Let_def)
  have zero: "averageProcessingTime (metrics processedMessage) = Fin 0"
    by (simp add: processedMessage_def recordMessageProcessed_def startTimer_def
        updateMessagesPerSecond_def init_metrics Let_def)
  note effect = endTimer_registered_effect [OF running refl refl, of "env0\<lparr>perfNow := 10\<rparr>"]
  have frame: "(metrics (snd (endTimer (env0\<lparr>perfNow := 10\<rparr>) ''msg-1'' processedMessage)))
        \<lparr>averageProcessingTime := averageProcessingTime (metrics processedMessage)\<rparr>
      = metrics processedMessage"
    using effect by simp
  have "totalMessagesProcessed
          (metrics (snd (endTimer (env0\<lparr>perfNow := 10\<rparr>) ''msg-1'' processedMessage))) =
        totalMessagesProcessed
          ((metrics (snd (endTimer (env0\<lparr>perfNow := 10\<rparr>) ''msg-1'' processedMessage)))
             \<lparr>averageProcessingTime := averageProcessingTime (metrics processedMessage)\<rparr>)"
    by simp
  also have "\<dots> = totalMessagesProcessed (metrics processedMessage)"
    by (simp only: frame)
  also have "\<dots> = 1" by (rule one)
  finally show ?thesis using running effect one zero by (simp add: js_sub_def num_def)
qed

text \<open>
  C5 as stated says that no aggregator field changes by the stop call. It fails on a message
  handled as \<open>handleData\<close> does: stopping its timer 10 ms after the start moves
  \<open>averageProcessingTime\<close> from 0 to 10.
\<close>

theorem endTimer_changes_average_processing_time:
  "processingTimers processedMessage ''msg-1'' \<noteq> None \<and>
   averageProcessingTime (metrics processedMessage) = Fin 0 \<and>
   averageProcessingTime
     (metrics (snd (endTimer (env0\<lparr>perfNow := 10\<rparr>) ''msg-1'' processedMessage))) = Fin 10"
  by (simp add: processedMessage_def endTimer_def startTimer_def recordMessageProcessed_def
      updateMessagesPerSecond_def updateAverageProcessingTime_def init_metrics init_timers
      env0_def num_def js_sub_def Let_def)

section \<open>Token activity\<close>

text \<open>
  C6. The specification states that for every symbol that is not a configured token
  \<open>recordTokenActivity\<close> is a complete no-op. The guard \<open>if (!tokenMetric) return\<close>
  lets an inherited object pass: for the symbol \<open>__proto__\<close> the lookup gives
  \<open>Object.prototype\<close>, and the call writes \<open>lastActivity\<close> and \<open>accountUpdates\<close>
  on it. On a new monitor \<open>tokenMetrics['lastActivity']\<close> is \<open>undefined\<close> before the
  call and an object after it, and \<open>tokenMetrics['accountUpdates']\<close> is NaN after it. The
  fields of the monitor and the \<open>TokenMetrics\<close> objects stay as they are
  (\<open>recordTokenActivity_unconfigured_fields\<close>), and a symbol that \<open>Object.prototype\<close>
  has no property for is dropped (\<open>recordTokenActivity_unknown_noop\<close>).
\<close>

theorem unconfigured_symbol_writes_object_prototype:
  "''__proto__'' \<notin> set configuredSymbols \<and>
   getProperty (objects (newPerformanceMonitor env0)) objectPrototype ''lastActivity'' = Undefined \<and>
   getProperty (objects protoRecorded) objectPrototype ''lastActivity'' = Ref 14 \<and>
   getProperty (objects protoRecorded) objectPrototype ''accountUpdates'' = Num NaN \<and>
   protoRecorded \<noteq> newPerformanceMonitor env0"
proof -
  have unknown: "''__proto__'' \<notin> set configuredSymbols"
    by (simp add: configuredSymbols_def SUPPORTED_TOKENS_def)
  have before: "getProperty (objects (newPerformanceMonitor env0)) objectPrototype ''lastActivity''
      = Undefined"
    by (simp add: init_objects getProperty_root initialObjects_def objectPrototypeProps_def
        objectPrototype_def)
  have found: "getProperty initialObjects objectPrototype ''__proto__'' = Ref 0"
    by (simp add: getProperty_root initialObjects_def objectPrototypeProps_def
        objectPrototype_def)
  have after: "objects protoRecorded = recordOnObject env0 Account None initialObjects 0"
    by (simp add: protoRecorded_def recordTokenActivity_def init_metrics init_objects found)
  have written: "props (recordOnObject env0 Account None initialObjects 0 ! 0) =
      objectPrototypeProps(''lastActivity'' \<mapsto> Ref 14, ''accountUpdates'' \<mapsto> Num NaN)"
    by (simp add: recordOnObject_def newDate_def setProperty_def getProperty_root
        initialObjects_def objectPrototypeProps_def Let_def)
  have root: "recordOnObject env0 Account None initialObjects 0 \<noteq> [] \<and>
      proto (recordOnObject env0 Account None initialObjects 0 ! 0) = None"
    by (simp add: recordOnObject_def newDate_def setProperty_def getProperty_root
        initialObjects_def Let_def)
  have last: "getProperty (objects protoRecorded) objectPrototype ''lastActivity'' = Ref 14"
    using root by (simp add: after getProperty_root written objectPrototype_def)
  have acc: "getProperty (objects protoRecorded) objectPrototype ''accountUpdates'' = Num NaN"
    using root by (simp add: after getProperty_root written objectPrototype_def)
  have "protoRecorded \<noteq> newPerformanceMonitor env0"
    using before last by auto
  then show ?thesis using unknown before last acc by simp
qed

text \<open>
  C7. The specification states that after \<open>recordTokenActivity\<close> calls for one configured symbol on a new
  monitor, \<open>averageTransactionSize\<close> is the mean of the amounts supplied, where some
  \<open>transaction\<close> calls may leave the amount out. The code divides by \<open>transactions\<close>,
  which also counts the calls without an amount: after the amounts 10, none, 20 the field is
  40/3, and the mean of the amounts supplied is 15. When no call leaves the amount out the
  field is the mean (\<open>transactions_with_amounts_mean\<close>).
\<close>

theorem average_transaction_size_counts_missing_amounts:
  "map_option averageTransactionSize
     (readTokenMetrics threeTransactions (metrics threeTransactions) ''USDC'')
     = Some (Fin (40 / 3)) \<and>
   map_option transactions
     (readTokenMetrics threeTransactions (metrics threeTransactions) ''USDC'') = Some 3 \<and>
   map_option largestTransaction
     (readTokenMetrics threeTransactions (metrics threeTransactions) ''USDC'') = Some (Fin 20)"
  by (simp add: threeTransactions_def readTokenMetrics_def recordTokenActivity_def
      foldAmount_def init_metrics init_heap num_def js_sub_def Let_def)

section \<open>Alert verdict\<close>

text \<open>
  C8. In every state the alert verdict of \<open>getHealthStatus\<close> is \<open>healthy\<close> when
  \<open>alertsSent + alertsFailedToSend\<close> is 0, whatever the other fields are; otherwise it is
  \<open>critical\<close> exactly when \<open>alertsFailedToSend / (alertsSent + alertsFailedToSend)\<close>
  exceeds 0.5, \<open>warning\<close> exactly when the rate exceeds 0.1 and not 0.5, and
  \<open>healthy\<close> otherwise.
\<close>

theorem alert_health_verdict:
  "alertSystem (services (fst (getHealthStatus env st))) =
     (if alertsSent (metrics st) + alertsFailedToSend (metrics st) = 0 then Healthy
      else if 5 / 10 < real (alertsFailedToSend (metrics st)) /
                         real (alertsSent (metrics st) + alertsFailedToSend (metrics st))
      then Critical
      else if 1 / 10 < real (alertsFailedToSend (metrics st)) /
                         real (alertsSent (metrics st) + alertsFailedToSend (metrics st))
      then Warning
      else Healthy)"
  by (simp add: getHealthStatus_alertSystem checkAlertHealth_def Let_def num_def)

text \<open>One alert sent and one failed: the rate 1/2 does not exceed 0.5 and exceeds 0.1.\<close>

theorem alert_health_verdict_witness:
  "alertsSent (metrics oneAlertFailedOfTwo) + alertsFailedToSend (metrics oneAlertFailedOfTwo) = 2 \<and>
   alertSystem (services (fst (getHealthStatus env0 oneAlertFailedOfTwo))) = Warning \<and>
   alertSystem (services (fst (getHealthStatus env0 (newPerformanceMonitor env0)))) = Healthy"
proof -
  have sent: "alertsSent (metrics oneAlertFailedOfTwo) = 1"
    by (simp add: oneAlertFailedOfTwo_def recordAlertSent_def init_metrics)
  have failed: "alertsFailedToSend (metrics oneAlertFailedOfTwo) = 1"
    by (simp add: oneAlertFailedOfTwo_def recordAlertSent_def init_metrics)
  show ?thesis
    using sent failed alert_health_verdict [of env0 oneAlertFailedOfTwo]
      alert_health_verdict [of env0 "newPerformanceMonitor env0"]
    by (simp add: init_metrics)
qed

section \<open>Database verdict without operations\<close>

text \<open>
  The decision of \<open>checkDatabaseHealth\<close> in terms of \<open>errorRate\<close>: once the latency
  test is passed the rate is computed and compared, whatever the denominator is.
\<close>

lemma checkDatabaseHealth_errorRate:
  "checkDatabaseHealth m iss =
     (if js_gt (databaseLatency m) MAX_DATABASE_LATENCY
      then (Warning, iss @ [HighDatabaseLatency (databaseLatency m)])
      else if js_gt (errorRate m) MAX_ERROR_RATE
      then (Critical, iss @ [HighDatabaseErrorRate (errorRate m)])
      else (Healthy, iss))"
  by (simp add: checkDatabaseHealth_def errorRate_def Let_def)




section \<open>An amount of zero\<close>

text \<open>
  C10. For every configured symbol, in every state that calls of the public methods reach
  from a new monitor, \<open>recordTokenActivity(symbol, 'transaction', 0)\<close> treats the amount
  \<open>0\<close> as absent: the token has its object, \<open>transactions\<close> is incremented, and
  \<open>averageTransactionSize\<close> and \<open>largestTransaction\<close> are left as they were.
\<close>

theorem zero_amount_treated_as_absent:
  assumes "symb \<in> set configuredSymbols"
    and "st = run cs (newPerformanceMonitor env')"
    and "st' = recordTokenActivity env symb Transaction (Some (Fin 0)) st"
  shows "readTokenMetrics st (metrics st) symb \<noteq> None \<and>
         map_option transactions (readTokenMetrics st' (metrics st') symb) =
           map_option (\<lambda>t. Suc (transactions t)) (readTokenMetrics st (metrics st) symb) \<and>
         map_option averageTransactionSize (readTokenMetrics st' (metrics st') symb) =
           map_option averageTransactionSize (readTokenMetrics st (metrics st) symb) \<and>
         map_option largestTransaction (readTokenMetrics st' (metrics st') symb) =
           map_option largestTransaction (readTokenMetrics st (metrics st) symb)"
proof -
  obtain r t0 where r: "tokenMetrics (metrics (newPerformanceMonitor env')) symb = Some r"
    and "heap (newPerformanceMonitor env') r = Some t0"
    using configured_has_object [OF assms(1)] by blast
  then have "heap st r \<noteq> None" using assms(2) by (simp add: run_heap_dom)
  then obtain t where t: "heap st r = Some t" by blast
  have tm: "tokenMetrics (metrics st) symb = Some r"
    using r assms(2) by (simp add: run_tokenMetrics)
  have tm': "tokenMetrics (metrics st') symb = Some r"
    using tm assms(3) by (simp add: recordTokenActivity_def t Let_def)
  have "heap st' r = Some (t\<lparr>lastActivity := dateNow env, transactions := Suc (transactions t)\<rparr>)"
    using tm t assms(3) by (simp add: recordTokenActivity_def Let_def)
  then show ?thesis using tm tm' t by (simp add: readTokenMetrics_def)
qed

theorem zero_amount_treated_as_absent_witness:
  "''USDC'' \<in> set configuredSymbols \<and>
   map_option transactions
     (readTokenMetrics (recordTokenActivity env0 ''USDC'' Transaction (Some (Fin 0)) threeTransactions)
        (metrics (recordTokenActivity env0 ''USDC'' Transaction (Some (Fin 0)) threeTransactions))
        ''USDC'') = Some 4 \<and>
   map_option averageTransactionSize
     (readTokenMetrics (recordTokenActivity env0 ''USDC'' Transaction (Some (Fin 0)) threeTransactions)
        (metrics (recordTokenActivity env0 ''USDC'' Transaction (Some (Fin 0)) threeTransactions))
        ''USDC'') = Some (Fin (40 / 3))"
proof -
  have known: "''USDC'' \<in> set configuredSymbols"
    by (simp add: configuredSymbols_def SUPPORTED_TOKENS_def)
  have before: "readTokenMetrics threeTransactions (metrics threeTransactions) ''USDC'' =
      Some \<lparr>symbol = ''USDC'', accountUpdates = 0, transactions = 3,
            averageTransactionSize = Fin (40 / 3), largestTransaction = Fin 20,
            lastActivity = 0\<rparr>"
    by (simp add: threeTransactions_def readTokenMetrics_def recordTokenActivity_def
        foldAmount_def init_metrics init_heap num_def js_sub_def Let_def env0_def)
  show ?thesis
    using known before
      zero_amount_treated_as_absent [OF known threeTransactions_def refl, of env0]
    by simp
qed

end
